theory Spec2Isabelle
  imports Complex_Main
begin

section \<open>Stripe2SevDesk connector: a model of \<^verbatim>\<open>src/index.ts\<close>\<close>

text \<open>
  The connector is one HTTP function, \<^verbatim>\<open>webhook\<close>, and four event handlers that talk to
  three outside services: the Stripe API, the SevDesk REST API (through an axios client)
  and the Google secret manager. The model below keeps the names of the source. Every
  request sent to an outside service is appended to a list of calls, in the order in which
  the requests are issued; what the service answers is taken from a \<open>world\<close>, which may
  answer differently depending on the calls made before. A promise is a function from the
  calls made so far to its outcome (fulfilled, \<open>Inr\<close>, or rejected, \<open>Inl\<close>) and the
  calls made when it settles.
\<close>

subsection \<open>JavaScript values and errors\<close>

text \<open>
  Values whose shape the source does not fix (metadata values, identifiers, the answers of
  the outside services, which are typed \<^verbatim>\<open>any\<close>): \<^verbatim>\<open>undefined\<close>, \<^verbatim>\<open>null\<close>, strings, integral
  numbers and objects. An object is its list of properties; keys are taken to be distinct.
\<close>

datatype js = JUndefined | JNull | JStr string | JNum int | JObj "(string \<times> js) list"

text \<open>
  \<open>Error m\<close> is \<^verbatim>\<open>new Error(m)\<close> raised by the connector itself, \<open>TypeError p\<close> the
  error of reading property \<open>p\<close> of \<^verbatim>\<open>undefined\<close> or \<^verbatim>\<open>null\<close>, \<open>Rejected m\<close> a failure
  reported by an outside service or library, with its message, and \<open>HeadersSent\<close> the
  error Node raises when a response is written to a request that was already answered.
\<close>

datatype error = Error string | TypeError string | Rejected string | HeadersSent

text \<open>Reading a property, \<^verbatim>\<open>v.k\<close>: throws on \<^verbatim>\<open>undefined\<close> and \<^verbatim>\<open>null\<close>; a property that
  an object does not have, and the properties read here on a string or a number, are
  \<^verbatim>\<open>undefined\<close>.\<close>

fun js_get :: "js \<Rightarrow> string \<Rightarrow> error + js" where
  "js_get JUndefined k = Inl (TypeError k)"
| "js_get JNull k = Inl (TypeError k)"
| "js_get (JObj kvs) k = Inr (case map_of kvs k of None \<Rightarrow> JUndefined | Some v \<Rightarrow> v)"
| "js_get (JStr s) k = Inr JUndefined"
| "js_get (JNum n) k = Inr JUndefined"

text \<open>\<^verbatim>\<open>r.data.id\<close>, as read from an axios response in the source.\<close>

definition data_id :: "js \<Rightarrow> error + js" where
  "data_id r = (case js_get r ''data'' of Inl e \<Rightarrow> Inl e | Inr d \<Rightarrow> js_get d ''id'')"

definition digit_char :: "nat \<Rightarrow> char" where
  "digit_char d = ''0123456789'' ! d"

function string_of_nat :: "nat \<Rightarrow> string" where
  "string_of_nat n =
     (if n < 10 then [digit_char n] else string_of_nat (n div 10) @ [digit_char (n mod 10)])"
  by pat_completeness auto
termination
  by (relation "measure id") auto

definition string_of_int :: "int \<Rightarrow> string" where
  "string_of_int i =
     (if i < 0 then CHR ''-'' # string_of_nat (nat (- i)) else string_of_nat (nat i))"

text \<open>\<^verbatim>\<open>String(v)\<close> and the interpolation of \<open>v\<close> in a template literal. Numbers are
  integers below the size at which JavaScript switches to exponent notation.\<close>

fun js_String :: "js \<Rightarrow> string" where
  "js_String JUndefined = ''undefined''"
| "js_String JNull = ''null''"
| "js_String (JStr s) = s"
| "js_String (JNum n) = string_of_int n"
| "js_String (JObj kvs) = ''[object Object]''"

text \<open>\<^verbatim>\<open>String(process.env.X)\<close>: an unset variable is \<^verbatim>\<open>undefined\<close>.\<close>

definition env_String :: "string option \<Rightarrow> string" where
  "env_String v = (case v of None \<Rightarrow> ''undefined'' | Some s \<Rightarrow> s)"

text \<open>\<^verbatim>\<open>s.toUpperCase()\<close> on the ASCII letters (currency codes are ASCII); other
  characters are left as they are.\<close>

definition upper_char :: "char \<Rightarrow> char" where
  "upper_char c =
     (let n = (of_char c :: nat) in if 97 \<le> n \<and> n \<le> 122 then char_of (n - 32) else c)"

definition toUpperCase :: "string \<Rightarrow> string" where
  "toUpperCase s = map upper_char s"

subsection \<open>Stripe objects\<close>

text \<open>
  The fields the connector reads, with the types of the Stripe declarations. A nullable
  field is an \<open>option\<close>. \<open>metadata\<close> is \<^verbatim>\<open>null\<close> (\<open>None\<close>) or an object; a key it does not
  hold reads as \<^verbatim>\<open>undefined\<close>.
\<close>

type_synonym metadata = "(string \<times> js) list option"

definition meta_get :: "(string \<times> js) list \<Rightarrow> string \<Rightarrow> js" where
  "meta_get md k = (case map_of md k of None \<Rightarrow> JUndefined | Some v \<Rightarrow> v)"

record tax_id =
  ti_type :: string
  ti_value :: string

record customer =
  c_id :: string
  c_name :: "string option"
  c_tax_exempt :: "string option"
  c_tax_ids :: "tax_id list option"
  c_metadata :: metadata

record tax_amount =
  ta_tax_rate :: js

record line_item =
  l_quantity :: "int option"
  l_amount :: int
  l_description :: "string option"
  l_tax_amounts :: "tax_amount list option"

record invoice =
  i_id :: string
  i_number :: "string option"
  i_customer :: js
  i_lines :: "line_item list"
  i_created :: int
  i_customer_tax_exempt :: "string option"
  i_currency :: string
  i_amount_paid :: int
  i_metadata :: metadata

text \<open>The verified event: \<^verbatim>\<open>event.type\<close> together with \<^verbatim>\<open>event.data.object\<close>, whose kind
  Stripe fixes by the type. \<open>OtherEvent t\<close> is an event of any other type \<open>t\<close>.\<close>

datatype event =
    InvoiceFinalized invoice
  | InvoicePaid invoice
  | InvoiceVoided invoice
  | CustomerCreated customer
  | CustomerUpdated customer
  | PayoutPaid
  | OtherEvent string

fun event_type :: "event \<Rightarrow> string" where
  "event_type (InvoiceFinalized i) = ''invoice.finalized''"
| "event_type (InvoicePaid i) = ''invoice.paid''"
| "event_type (InvoiceVoided i) = ''invoice.voided''"
| "event_type (CustomerCreated c) = ''customer.created''"
| "event_type (CustomerUpdated c) = ''customer.updated''"
| "event_type PayoutPaid = ''payout.paid''"
| "event_type (OtherEvent t) = t"

subsection \<open>Requests sent to SevDesk and Stripe\<close>

record contact_data =
  cd_name :: "string option"
  cd_category_id :: nat
  cd_category_objectName :: string
  cd_description :: string
  cd_exemptVat :: bool
  cd_vatNumber :: js
  cd_taxType :: js

record invoice_pos =
  pos_quantity :: "int option"
  pos_price :: int
  pos_name :: "string option"
  pos_text :: "string option"
  pos_discount :: "int option"
  pos_taxRate :: "rat option"
  pos_priceGross :: "int option"
  pos_priceTax :: "int option"
  pos_mapAll :: bool
  pos_objectName :: string

record invoice_data =
  invoiceNumber :: "string option"
  contact_id :: js
  contact_objectName :: string
  invoiceDate :: int
  deliveryDate :: int
  deliveryDateUntil :: int
  discount :: int
  status :: nat
  contactPerson :: "string option"
  smallSettlement :: bool
  taxType :: string
  currency :: string
  invoiceType :: string
  sendType :: string

record save_invoice =
  invoice_part :: invoice_data
  invoicePosSave :: "invoice_pos list"

record book_amount =
  amount :: int
  date :: string
  booking_type :: string
  checkAccount_id :: "string option"
  checkAccount_objectName :: string

datatype body =
    NoBody
  | ContactBody contact_data
  | SaveInvoiceBody save_invoice
  | BookAmountBody book_amount

record axios_instance =
  baseURL :: string
  authorization :: string

text \<open>
  One constructor for each request the source sends: the secret manager's
  \<^verbatim>\<open>accessSecretVersion({name})\<close>, \<^verbatim>\<open>stripe.customers.retrieve(id)\<close>,
  \<^verbatim>\<open>stripe.customers.update(id, {metadata: {sevdesk_id: v}})\<close>,
  \<^verbatim>\<open>stripe.invoices.update(id, {metadata: {sevdesk_id: v}})\<close>,
  \<^verbatim>\<open>stripe.taxRates.retrieve(id)\<close>, and \<^verbatim>\<open>client.post(path, body)\<close>,
  \<^verbatim>\<open>client.put(path, body)\<close> on an axios client.
\<close>

datatype call =
    AccessSecretVersion string
  | CustomersRetrieve string
  | CustomersUpdate string js
  | InvoicesUpdate string js
  | TaxRatesRetrieve string
  | Post axios_instance string body
  | Put axios_instance string body

text \<open>The calls that reach the accounting platform, those that create a contact or an
  invoice there, and the write-back of an invoice's linkage id to Stripe.\<close>

fun is_sevdesk :: "call \<Rightarrow> bool" where
  "is_sevdesk (Post c p b) = True"
| "is_sevdesk (Put c p b) = True"
| "is_sevdesk _ = False"

fun is_contact_creation :: "call \<Rightarrow> bool" where
  "is_contact_creation (Post c p b) = (p = ''/Contact'')"
| "is_contact_creation _ = False"

fun is_invoice_creation :: "call \<Rightarrow> bool" where
  "is_invoice_creation (Post c p b) = (p = ''/Invoice/Factory/saveInvoice'')"
| "is_invoice_creation _ = False"

fun is_invoice_update :: "call \<Rightarrow> bool" where
  "is_invoice_update (InvoicesUpdate i v) = True"
| "is_invoice_update _ = False"

subsection \<open>The outside world\<close>

text \<open>
  \<open>constructEvent\<close> is Stripe's signature check of the raw body against the signature
  header and the webhook secret: it returns the event or throws. The three other fields
  are the answers of the secret manager (the secret's text), of
  \<^verbatim>\<open>stripe.customers.retrieve\<close>, and of every other awaited request, each given the calls
  made before it. The configuration is the environment and the date
  \<^verbatim>\<open>new Date().toLocaleDateString('de')\<close> yields.
\<close>

record world =
  constructEvent :: "string \<Rightarrow> string option \<Rightarrow> string option \<Rightarrow> error + event"
  secretManager :: "call list \<Rightarrow> string \<Rightarrow> error + string"
  customersRetrieve :: "call list \<Rightarrow> string \<Rightarrow> error + customer"
  answer :: "call list \<Rightarrow> call \<Rightarrow> error + js"

record env =
  STRIPE_WEBHOOK_SECRET :: "string option"
  SEVDESK_API_KEY_SECRET :: "string option"
  SEVDESK_CHECK_ACCOUNT :: "string option"
  today_de :: string

subsection \<open>Promises\<close>

type_synonym 'a promise = "call list \<Rightarrow> (error + 'a) \<times> call list"

definition resolve :: "'a \<Rightarrow> 'a promise" where
  "resolve x = (\<lambda>tr. (Inr x, tr))"

definition reject :: "error \<Rightarrow> 'a promise" where
  "reject e = (\<lambda>tr. (Inl e, tr))"

text \<open>\<^verbatim>\<open>const x = await p; k(x)\<close> and \<^verbatim>\<open>p.then(k)\<close>: a rejection of \<open>p\<close> skips \<open>k\<close>.\<close>

definition await :: "'a promise \<Rightarrow> ('a \<Rightarrow> 'b promise) \<Rightarrow> 'b promise" where
  "await p k = (\<lambda>tr. case p tr of (Inl e, tr') \<Rightarrow> (Inl e, tr') | (Inr x, tr') \<Rightarrow> k x tr')"

text \<open>An expression that may throw inside an async function or a \<^verbatim>\<open>then\<close> callback.\<close>

definition eval_js :: "error + 'a \<Rightarrow> 'a promise" where
  "eval_js r = (\<lambda>tr. (r, tr))"

definition request :: "world \<Rightarrow> call \<Rightarrow> js promise" where
  "request w c = (\<lambda>tr. (answer w tr c, tr @ [c]))"

subsection \<open>The SevDesk client\<close>

definition accessSecretVersion :: "world \<Rightarrow> string \<Rightarrow> string promise" where
  "accessSecretVersion w name = (\<lambda>tr. (secretManager w tr name, tr @ [AccessSecretVersion name]))"

definition sevDeskClient :: "world \<Rightarrow> env \<Rightarrow> axios_instance promise" where
  "sevDeskClient w e =
     await (accessSecretVersion w (env_String (SEVDESK_API_KEY_SECRET e)))
       (\<lambda>apiKey. resolve \<lparr>baseURL = ''https://my.sevdesk.de/api/v1/'', authorization = apiKey\<rparr>)"

subsection \<open>Contacts\<close>

text \<open>The \<open>data\<close> object of \<^verbatim>\<open>createOrUpdateContact\<close>. \<^verbatim>\<open>vatNumber\<close> and \<^verbatim>\<open>taxType\<close> are
  assigned only when the customer has a tax identifier; until then they are
  \<^verbatim>\<open>undefined\<close>.\<close>

definition contact_payload :: "customer \<Rightarrow> contact_data" where
  "contact_payload cu =
     (let data = \<lparr>cd_name = c_name cu, cd_category_id = 3, cd_category_objectName = ''Category'',
                  cd_description = c_id cu, cd_exemptVat = (Some ''exempt'' = c_tax_exempt cu),
                  cd_vatNumber = JUndefined, cd_taxType = JUndefined\<rparr>
      in case c_tax_ids cu of
           Some (taxId # rest) \<Rightarrow>
             data\<lparr>cd_vatNumber := (if ''eu_vat'' = ti_type taxId then JStr (ti_value taxId) else JNull),
                  cd_taxType := (if ''eu_vat'' = ti_type taxId then JStr ''eu'' else JNull)\<rparr>
         | _ \<Rightarrow> data)"

text \<open>\<open>customerId\<close> is \<open>JUndefined\<close> when the argument is left out.\<close>

definition createOrUpdateContact :: "world \<Rightarrow> env \<Rightarrow> customer \<Rightarrow> js \<Rightarrow> js promise" where
  "createOrUpdateContact w e cu customerId =
     await (sevDeskClient w e) (\<lambda>client.
       if customerId = JUndefined then
         await (request w (Post client ''/Contact'' (ContactBody (contact_payload cu))))
           (\<lambda>response. await (eval_js (data_id response))
              (\<lambda>i. request w (CustomersUpdate (c_id cu) i)))
       else request w (Put client (''/Contact/'' @ js_String customerId)
                        (ContactBody (contact_payload cu))))"

definition onCustomerUpdated :: "world \<Rightarrow> env \<Rightarrow> customer \<Rightarrow> js promise" where
  "onCustomerUpdated w e cu =
     (case c_metadata cu of
        None \<Rightarrow> createOrUpdateContact w e cu JUndefined
      | Some md \<Rightarrow>
          if JNull = meta_get md ''sevdesk_id'' then createOrUpdateContact w e cu JUndefined
          else createOrUpdateContact w e cu (meta_get md ''sevdesk_id''))"

subsection \<open>Invoices\<close>

text \<open>
  The callback of \<^verbatim>\<open>map\<close> over the lines. The local \<open>taxRate\<close> is \<^verbatim>\<open>null\<close> when the
  returned object is built: \<^verbatim>\<open>stripe.taxRates.retrieve\<close> is started and not awaited, and
  the callback that would assign the percentage runs only once the lookup has been
  answered, which is after the object has been returned.
\<close>

definition invoiceItem :: "line_item \<Rightarrow> invoice_pos promise" where
  "invoiceItem line =
     (let taxRate = (None :: rat option);
          item = \<lparr>pos_quantity = l_quantity line, pos_price = l_amount line,
                  pos_name = l_description line, pos_text = None, pos_discount = None,
                  pos_taxRate = (case taxRate of None \<Rightarrow> None
                                 | Some t \<Rightarrow> if t = 0 then None else Some (t / 100)),
                  pos_priceGross = None, pos_priceTax = None, pos_mapAll = True,
                  pos_objectName = ''InvoicePos''\<rparr>
      in case l_tax_amounts line of
           Some (ta # tas) \<Rightarrow>
             if length (ta # tas) > 1
             then reject (Error ''Multiple tax rates per item are not supported.'')
             else (\<lambda>tr. (Inr item, tr @ [TaxRatesRetrieve (js_String (ta_tax_rate ta))]))
         | _ \<Rightarrow> resolve item)"

fun invoiceItems :: "line_item list \<Rightarrow> invoice_pos list promise" where
  "invoiceItems [] tr = (Inr [], tr)"
| "invoiceItems (line # rest) tr =
     (case invoiceItem line tr of
        (Inl e, tr') \<Rightarrow> (Inl e, tr')
      | (Inr item, tr') \<Rightarrow>
          (case invoiceItems rest tr' of
             (Inl e, tr'') \<Rightarrow> (Inl e, tr'')
           | (Inr items, tr'') \<Rightarrow> (Inr (item # items), tr'')))"

text \<open>Lines 92 to 98: the contact the invoice is attached to.\<close>

definition contactId_of :: "world \<Rightarrow> env \<Rightarrow> customer \<Rightarrow> js promise" where
  "contactId_of w e cu =
     (let created = await (createOrUpdateContact w e cu JUndefined)
                      (\<lambda>contact. eval_js (data_id contact))
      in case c_metadata cu of
           None \<Rightarrow> created
         | Some md \<Rightarrow>
             if JNull \<noteq> meta_get md ''sevdesk_id'' then resolve (meta_get md ''sevdesk_id'')
             else created)"

definition saveInvoice_body :: "invoice \<Rightarrow> js \<Rightarrow> invoice_pos list \<Rightarrow> save_invoice" where
  "saveInvoice_body iv contactId invoiceItems' =
     \<lparr>invoice_part =
        \<lparr>invoiceNumber = i_number iv, contact_id = contactId, contact_objectName = ''Contact'',
         invoiceDate = i_created iv, deliveryDate = 0, deliveryDateUntil = 0, discount = 0,
         status = 200, contactPerson = None, smallSettlement = False,
         taxType = (if i_customer_tax_exempt iv = Some ''exempt'' then ''eu''
                    else if i_customer_tax_exempt iv = Some ''reverse'' then ''noteu''
                    else ''default''),
         currency = toUpperCase (i_currency iv), invoiceType = ''RE'', sendType = ''VM''\<rparr>,
      invoicePosSave = invoiceItems'\<rparr>"

definition retrieve :: "world \<Rightarrow> string \<Rightarrow> customer promise" where
  "retrieve w i = (\<lambda>tr. (customersRetrieve w tr i, tr @ [CustomersRetrieve i]))"

definition onInvoiceFinalized :: "world \<Rightarrow> env \<Rightarrow> invoice \<Rightarrow> js promise" where
  "onInvoiceFinalized w e iv =
     await (sevDeskClient w e) (\<lambda>client.
     await (retrieve w (js_String (i_customer iv))) (\<lambda>cu.
     await (contactId_of w e cu) (\<lambda>contactId.
     await (invoiceItems (i_lines iv)) (\<lambda>items.
     await (request w (Post client ''/Invoice/Factory/saveInvoice''
                        (SaveInvoiceBody (saveInvoice_body iv contactId items)))) (\<lambda>response.
     await (eval_js (data_id response)) (\<lambda>invoiceId.
     await (request w (InvoicesUpdate (i_id iv) invoiceId)) (\<lambda>u.
     resolve response)))))))"

definition onInvoiceVoided :: "world \<Rightarrow> env \<Rightarrow> invoice \<Rightarrow> js promise" where
  "onInvoiceVoided w e iv =
     (case i_metadata iv of
        None \<Rightarrow> reject (Error ''No SevDesk link found.'')
      | Some md \<Rightarrow>
          if JNull = meta_get md ''sevdesk_id'' then reject (Error ''No SevDesk link found.'')
          else await (sevDeskClient w e) (\<lambda>client.
                 request w (Post client
                   (''/Invoice/'' @ js_String (meta_get md ''sevdesk_id'') @ ''/cancelInvoice'')
                   NoBody)))"

definition onInvoicePaid :: "world \<Rightarrow> env \<Rightarrow> invoice \<Rightarrow> js promise" where
  "onInvoicePaid w e iv =
     (case i_metadata iv of
        None \<Rightarrow> reject (Error ''No SevDesk link found.'')
      | Some md \<Rightarrow>
          if JNull = meta_get md ''sevdesk_id'' then reject (Error ''No SevDesk link found.'')
          else await (sevDeskClient w e) (\<lambda>client.
                 request w (Put client
                   (''/Invoice/'' @ js_String (meta_get md ''sevdesk_id'') @ ''/bookAmount'')
                   (BookAmountBody \<lparr>amount = i_amount_paid iv, date = today_de e,
                      booking_type = ''N'', checkAccount_id = SEVDESK_CHECK_ACCOUNT e,
                      checkAccount_objectName = ''CheckAccount''\<rparr>))))"

subsection \<open>The entry point\<close>

text \<open>
  The response object: \<^verbatim>\<open>res.status(n)\<close> sets the status code, which starts at 200;
  \<^verbatim>\<open>res.json(b)\<close> and \<^verbatim>\<open>res.send(b)\<close> answer the request with the current status code.
  A request is answered once: writing a second response throws, and the client keeps the
  first.
\<close>

datatype res_body = Received | ErrorBody error | Text string

record res =
  statusCode :: nat
  sent :: "(nat \<times> res_body) option"

definition res0 :: res where
  "res0 = \<lparr>statusCode = 200, sent = None\<rparr>"

definition res_status :: "nat \<Rightarrow> res \<Rightarrow> res" where
  "res_status n r = r\<lparr>statusCode := n\<rparr>"

definition res_send :: "res_body \<Rightarrow> res \<Rightarrow> (error + unit) \<times> res" where
  "res_send b r =
     (case sent r of
        None \<Rightarrow> (Inr (), r\<lparr>sent := Some (statusCode r, b)\<rparr>)
      | Some x \<Rightarrow> (Inl HeadersSent, r))"

text \<open>\<^verbatim>\<open>handleError\<close> always throws: the error of the refused response, or its own.\<close>

definition handleError :: "res \<Rightarrow> error \<Rightarrow> error \<times> res" where
  "handleError r err =
     (case res_send (ErrorBody err) (res_status 500 r) of
        (Inl e, r') \<Rightarrow> (e, r')
      | (Inr u, r') \<Rightarrow> (Error ''An error occurred'', r'))"

text \<open>
  \<^verbatim>\<open>p.then(() => res.json({received: true})).catch(error => handleError(res, error))\<close>,
  run once the handler's promise has settled with \<open>outcome\<close>: the error it leaves
  unhandled, if any, and the response object.
\<close>

definition settle :: "error + js \<Rightarrow> res \<Rightarrow> error option \<times> res" where
  "settle outcome r =
     (case (case outcome of Inl e \<Rightarrow> (Inl e, r) | Inr v \<Rightarrow> res_send Received r) of
        (Inr u, r') \<Rightarrow> (None, r')
      | (Inl e, r') \<Rightarrow> (case handleError r' e of (e', r'') \<Rightarrow> (Some e', r'')))"

text \<open>The promise the \<^verbatim>\<open>switch\<close> starts: none for \<^verbatim>\<open>payout.paid\<close> and for a type without a
  case.\<close>

fun dispatch :: "world \<Rightarrow> env \<Rightarrow> event \<Rightarrow> js promise option" where
  "dispatch w e (InvoiceFinalized i) = Some (onInvoiceFinalized w e i)"
| "dispatch w e (InvoicePaid i) = Some (onInvoicePaid w e i)"
| "dispatch w e (InvoiceVoided i) = Some (onInvoiceVoided w e i)"
| "dispatch w e (CustomerCreated c) = Some (onCustomerUpdated w e c)"
| "dispatch w e (CustomerUpdated c) = Some (onCustomerUpdated w e c)"
| "dispatch w e PayoutPaid = None"
| "dispatch w e (OtherEvent t) = None"

record http_request =
  rawBody :: string
  stripe_signature :: "string option"

text \<open>
  What one run of \<^verbatim>\<open>webhook\<close> leaves behind: the response the client receives, the error
  thrown out of the function body, the error left unhandled by the handler's promise
  chain, whether a handler was started, and the calls made to the outside services.
\<close>

record result =
  response :: "(nat \<times> res_body) option"
  thrown :: "error option"
  unhandled :: "error option"
  handler_started :: bool
  calls :: "call list"

text \<open>
  The body of \<^verbatim>\<open>webhook\<close> runs to its end before any callback of a promise does: the
  statements after the \<^verbatim>\<open>switch\<close> are executed first, and the \<^verbatim>\<open>then\<close> and \<^verbatim>\<open>catch\<close>
  callbacks of the started handler afterwards, on the same response object.
\<close>

definition webhook :: "world \<Rightarrow> env \<Rightarrow> http_request \<Rightarrow> result" where
  "webhook w e req =
     (case constructEvent w (rawBody req) (stripe_signature req) (STRIPE_WEBHOOK_SECRET e) of
        Inl err \<Rightarrow>
          (case res_send (ErrorBody err) (res_status 400 res0) of
             (x, r) \<Rightarrow> \<lparr>response = sent r, thrown = (case x of Inl e' \<Rightarrow> Some e' | Inr u \<Rightarrow> None),
                        unhandled = None, handler_started = False, calls = []\<rparr>)
      | Inr ev \<Rightarrow>
          (let started = dispatch w e ev in
           case res_send (Text ''Event type not supported'') (res_status 400 res0) of
             (x, r) \<Rightarrow>
               (let t = (case x of Inl e' \<Rightarrow> e'
                         | Inr u \<Rightarrow> Error (''Unhandled event type '' @ event_type ev))
                in case started of
                     None \<Rightarrow> \<lparr>response = sent r, thrown = Some t, unhandled = None,
                              handler_started = False, calls = []\<rparr>
                   | Some p \<Rightarrow>
                       (case p [] of
                          (outcome, tr) \<Rightarrow>
                            (case settle outcome r of
                               (u, r') \<Rightarrow> \<lparr>response = sent r', thrown = Some t, unhandled = u,
                                           handler_started = True, calls = tr\<rparr>)))))"

subsection \<open>Linkage\<close>

text \<open>
  The linkage of a Stripe object is the value stored under the key \<^verbatim>\<open>sevdesk_id\<close> of its
  metadata: \<^verbatim>\<open>undefined\<close> when the metadata are \<^verbatim>\<open>null\<close> or do not hold the key. An object
  has a linkage id when that value is neither \<^verbatim>\<open>undefined\<close> nor \<^verbatim>\<open>null\<close>.
\<close>

definition linkage :: "metadata \<Rightarrow> js" where
  "linkage m = (case m of None \<Rightarrow> JUndefined | Some md \<Rightarrow> meta_get md ''sevdesk_id'')"

definition has_linkage :: "metadata \<Rightarrow> bool" where
  "has_linkage m = (linkage m \<noteq> JUndefined \<and> linkage m \<noteq> JNull)"

text \<open>The accounting item the source builds for a line (lines 112 to 123).\<close>

definition item_of :: "line_item \<Rightarrow> invoice_pos" where
  "item_of line =
     \<lparr>pos_quantity = l_quantity line, pos_price = l_amount line, pos_name = l_description line,
      pos_text = None, pos_discount = None, pos_taxRate = None, pos_priceGross = None,
      pos_priceTax = None, pos_mapAll = True, pos_objectName = ''InvoicePos''\<rparr>"

text \<open>A line carries multiple tax rates when its \<^verbatim>\<open>tax_amounts\<close> has two or more
  entries; \<open>rate_lookup\<close> is the tax-rate lookup a line with tax amounts starts.\<close>

definition multiple_tax_rates :: "line_item \<Rightarrow> bool" where
  "multiple_tax_rates line =
     (case l_tax_amounts line of None \<Rightarrow> False | Some tas \<Rightarrow> length tas > 1)"

definition rate_lookup :: "line_item \<Rightarrow> call list" where
  "rate_lookup line =
     (case l_tax_amounts line of
        Some (ta # tas) \<Rightarrow> [TaxRatesRetrieve (js_String (ta_tax_rate ta))]
      | _ \<Rightarrow> [])"

text \<open>Short names for the calls a run starts with: the access to the API-key secret, the
  client built from the key, the contact creation for a customer, and the retrieval of
  an invoice's customer.\<close>

abbreviation secret_call :: "env \<Rightarrow> call" where
  "secret_call e \<equiv> AccessSecretVersion (env_String (SEVDESK_API_KEY_SECRET e))"

abbreviation client_of :: "string \<Rightarrow> axios_instance" where
  "client_of apiKey \<equiv> \<lparr>baseURL = ''https://my.sevdesk.de/api/v1/'', authorization = apiKey\<rparr>"

abbreviation create_call :: "string \<Rightarrow> customer \<Rightarrow> call" where
  "create_call apiKey cu \<equiv> Post (client_of apiKey) ''/Contact'' (ContactBody (contact_payload cu))"

abbreviation retrieve_call :: "invoice \<Rightarrow> call" where
  "retrieve_call iv \<equiv> CustomersRetrieve (js_String (i_customer iv))"

subsection \<open>Example inputs\<close>

definition demo_env :: env where
  "demo_env = \<lparr>STRIPE_WEBHOOK_SECRET = Some ''whsec_1'', SEVDESK_API_KEY_SECRET = Some ''sevdesk-key'',
               SEVDESK_CHECK_ACCOUNT = Some ''5'', today_de = ''3.11.2026''\<rparr>"

definition demo_customer :: "metadata \<Rightarrow> customer" where
  "demo_customer m = \<lparr>c_id = ''cus_1'', c_name = Some ''Ada'', c_tax_exempt = Some ''none'',
                      c_tax_ids = None, c_metadata = m\<rparr>"

definition demo_line :: "tax_amount list \<Rightarrow> line_item" where
  "demo_line tas = \<lparr>l_quantity = Some 1, l_amount = 1000, l_description = Some ''Plan'',
                    l_tax_amounts = Some tas\<rparr>"

definition demo_invoice :: "line_item list \<Rightarrow> metadata \<Rightarrow> invoice" where
  "demo_invoice ls m = \<lparr>i_id = ''in_1'', i_number = Some ''R-1'', i_customer = JStr ''cus_1'',
                        i_lines = ls, i_created = 1700000000, i_customer_tax_exempt = Some ''exempt'',
                        i_currency = ''eur'', i_amount_paid = 1190, i_metadata = m\<rparr>"

text \<open>
  Services that accept every request: SevDesk answers a \<^verbatim>\<open>POST\<close> with an axios response
  whose data carry an id (77 for a contact, 500 for an invoice); Stripe answers an update
  with the updated object, which has no \<^verbatim>\<open>data\<close> property.
\<close>

fun demo_answer :: "call \<Rightarrow> error + js" where
  "demo_answer (Post c p b) =
     Inr (JObj [(''status'', JNum 201),
                (''data'', JObj [(''id'', JStr (if p = ''/Contact'' then ''77'' else ''500''))])])"
| "demo_answer (Put c p b) = Inr (JObj [(''status'', JNum 200), (''data'', JObj [])])"
| "demo_answer (CustomersUpdate i v) =
     Inr (JObj [(''id'', JStr i), (''object'', JStr ''customer''),
                (''metadata'', JObj [(''sevdesk_id'', v)])])"
| "demo_answer (InvoicesUpdate i v) =
     Inr (JObj [(''id'', JStr i), (''object'', JStr ''invoice''),
                (''metadata'', JObj [(''sevdesk_id'', v)])])"
| "demo_answer c = Inr JUndefined"

text \<open>The signature check accepts the header \<^verbatim>\<open>good\<close> and then yields the event \<open>ev\<close>;
  \<open>cu\<close> is the customer Stripe holds.\<close>

definition demo_world :: "event \<Rightarrow> customer \<Rightarrow> world" where
  "demo_world ev cu =
     \<lparr>constructEvent = (\<lambda>payload header secret.
         if header = Some ''good'' then Inr ev
         else Inl (Rejected ''No signatures found matching the expected signature for payload.'')),
      secretManager = (\<lambda>tr name. Inr ''api-key''),
      customersRetrieve = (\<lambda>tr i. Inr cu),
      answer = (\<lambda>tr c. demo_answer c)\<rparr>"

text \<open>A contact-creation answer with id 77 whose write-back answer happens to carry a
  \<^verbatim>\<open>data.id\<close> of its own, 99.\<close>

definition echo_world :: "customer \<Rightarrow> world" where
  "echo_world cu =
     \<lparr>constructEvent = (\<lambda>payload header secret. Inl (Rejected ''no event'')),
      secretManager = (\<lambda>tr name. Inr ''api-key''),
      customersRetrieve = (\<lambda>tr i. Inr cu),
      answer = (\<lambda>tr c. case c of
                  CustomersUpdate i v \<Rightarrow> Inr (JObj [(''data'', JObj [(''id'', JStr ''99'')])])
                | _ \<Rightarrow> demo_answer c)\<rparr>"

text \<open>Named pieces of the examples: the client built from the demo secret, a tax amount,
  metadata linked to an id, invoices with one line carrying one and two tax rates, a
  request with a given signature header, and a world for running a handler alone.\<close>

definition demo_client :: axios_instance where
  "demo_client = \<lparr>baseURL = ''https://my.sevdesk.de/api/v1/'', authorization = ''api-key''\<rparr>"

definition demo_rate :: tax_amount where
  "demo_rate = \<lparr>ta_tax_rate = JStr ''txr_1''\<rparr>"

definition linked_to :: "string \<Rightarrow> metadata" where
  "linked_to i = Some [(''sevdesk_id'', JStr i)]"

definition one_rate_invoice :: invoice where
  "one_rate_invoice = demo_invoice [demo_line [demo_rate]] (Some [])"

definition two_rate_invoice :: invoice where
  "two_rate_invoice = demo_invoice [demo_line [demo_rate, \<lparr>ta_tax_rate = JStr ''txr_2''\<rparr>]] (Some [])"

definition demo_request :: "string \<Rightarrow> http_request" where
  "demo_request header = \<lparr>rawBody = ''{}'', stripe_signature = Some header\<rparr>"

definition handler_world :: "customer \<Rightarrow> world" where
  "handler_world cu = demo_world PayoutPaid cu"

section \<open>Properties\<close>

subsection \<open>Auxiliary facts\<close>

lemmas promise_defs = resolve_def reject_def await_def eval_js_def request_def
  accessSecretVersion_def sevDeskClient_def retrieve_def

lemma invoiceItem_eq:
  "invoiceItem line tr =
     (if multiple_tax_rates line
      then (Inl (Error ''Multiple tax rates per item are not supported.''), tr)
      else (Inr (item_of line), tr @ rate_lookup line))"
  by (simp add: invoiceItem_def multiple_tax_rates_def rate_lookup_def item_of_def
      resolve_def reject_def split: option.splits list.splits)

lemma invoiceItems_ok:
  "\<forall>l \<in> set ls. \<not> multiple_tax_rates l \<Longrightarrow>
   invoiceItems ls tr = (Inr (map item_of ls), tr @ concat (map rate_lookup ls))"
  by (induction ls arbitrary: tr) (simp_all add: invoiceItem_eq)

lemma invoiceItems_multiple:
  "\<exists>l \<in> set ls. multiple_tax_rates l \<Longrightarrow>
   invoiceItems ls tr =
     (Inl (Error ''Multiple tax rates per item are not supported.''),
      tr @ concat (map rate_lookup (takeWhile (\<lambda>l. \<not> multiple_tax_rates l) ls)))"
proof (induction ls arbitrary: tr)
  case Nil
  then show ?case by simp
next
  case (Cons l ls)
  show ?case
  proof (cases "multiple_tax_rates l")
    case True
    then show ?thesis by (simp add: invoiceItem_eq)
  next
    case False
    with Cons.prems have "\<exists>l \<in> set ls. multiple_tax_rates l" by simp
    from Cons.IH [OF this] False show ?thesis by (simp add: invoiceItem_eq)
  qed
qed

lemma rate_lookup_calls: "c \<in> set (rate_lookup l) \<Longrightarrow> \<exists>i. c = TaxRatesRetrieve i"
  by (auto simp: rate_lookup_def split: option.splits list.splits)

lemmas demo_defs = demo_client_def demo_rate_def linked_to_def one_rate_invoice_def
  two_rate_invoice_def demo_request_def handler_world_def demo_world_def demo_customer_def
  demo_invoice_def demo_line_def demo_env_def echo_world_def

lemmas run_defs = onInvoiceFinalized_def onInvoicePaid_def onInvoiceVoided_def
  onCustomerUpdated_def createOrUpdateContact_def contactId_of_def promise_defs
  invoiceItem_eq multiple_tax_rates_def rate_lookup_def meta_get_def env_String_def
  data_id_def contact_payload_def

lemma createOrUpdateContact_calls:
  "\<exists>cs. snd (createOrUpdateContact w e cu cid tr) = tr @ cs \<and>
     (\<forall>c \<in> set cs. (\<exists>n. c = AccessSecretVersion n) \<or> (\<exists>cl q. c = Post cl ''/Contact'' (ContactBody q))
        \<or> (\<exists>cl p q. c = Put cl p (ContactBody q)) \<or> (\<exists>i v. c = CustomersUpdate i v))"
  by (auto simp: createOrUpdateContact_def promise_defs split: sum.splits prod.splits)

lemma contactId_of_calls:
  "\<exists>cs. snd (contactId_of w e cu tr) = tr @ cs \<and>
     (\<forall>c \<in> set cs. (\<exists>n. c = AccessSecretVersion n) \<or> (\<exists>cl q. c = Post cl ''/Contact'' (ContactBody q))
        \<or> (\<exists>cl p q. c = Put cl p (ContactBody q)) \<or> (\<exists>i v. c = CustomersUpdate i v))"
proof -
  obtain cs where cs: "snd (createOrUpdateContact w e cu JUndefined tr) = tr @ cs"
    "\<forall>c \<in> set cs. (\<exists>n. c = AccessSecretVersion n) \<or> (\<exists>cl q. c = Post cl ''/Contact'' (ContactBody q))
        \<or> (\<exists>cl p q. c = Put cl p (ContactBody q)) \<or> (\<exists>i v. c = CustomersUpdate i v)"
    using createOrUpdateContact_calls by blast
  have "snd (contactId_of w e cu tr) = tr \<or> snd (contactId_of w e cu tr) = tr @ cs"
    using cs(1)
    by (auto simp: contactId_of_def Let_def resolve_def await_def eval_js_def
        split: option.splits sum.splits prod.splits)
  then show ?thesis
  proof
    assume "snd (contactId_of w e cu tr) = tr"
    then show ?thesis by (intro exI [of _ "[]"]) simp
  next
    assume "snd (contactId_of w e cu tr) = tr @ cs"
    with cs(2) show ?thesis by blast
  qed
qed

lemma contactId_of_linked:
  "has_linkage (c_metadata cu) \<Longrightarrow>
   contactId_of w e cu tr = (Inr (linkage (c_metadata cu)), tr)"
  by (auto simp: contactId_of_def has_linkage_def linkage_def resolve_def Let_def
      split: option.splits)


lemma finalized_save_request:
  assumes "Post c p (SaveInvoiceBody b) \<in> set (snd (onInvoiceFinalized w e iv []))"
  shows "\<exists>apiKey cu contactId t.
           secretManager w [] (env_String (SEVDESK_API_KEY_SECRET e)) = Inr apiKey \<and>
           customersRetrieve w [AccessSecretVersion (env_String (SEVDESK_API_KEY_SECRET e))]
             (js_String (i_customer iv)) = Inr cu \<and>
           contactId_of w e cu [AccessSecretVersion (env_String (SEVDESK_API_KEY_SECRET e)),
             CustomersRetrieve (js_String (i_customer iv))] = (Inr contactId, t) \<and>
           (\<forall>l \<in> set (i_lines iv). \<not> multiple_tax_rates l) \<and>
           c = \<lparr>baseURL = ''https://my.sevdesk.de/api/v1/'', authorization = apiKey\<rparr> \<and>
           p = ''/Invoice/Factory/saveInvoice'' \<and>
           b = saveInvoice_body iv contactId (map item_of (i_lines iv)) \<and>
           set (concat (map rate_lookup (i_lines iv))) \<subseteq> set (snd (onInvoiceFinalized w e iv []))"
proof (cases "secretManager w [] (env_String (SEVDESK_API_KEY_SECRET e))")
  case (Inl x)
  with assms show ?thesis by (simp add: onInvoiceFinalized_def promise_defs)
next
  case key: (Inr apiKey)
  let ?S = "AccessSecretVersion (env_String (SEVDESK_API_KEY_SECRET e))"
  let ?R = "CustomersRetrieve (js_String (i_customer iv))"
  show ?thesis
  proof (cases "customersRetrieve w [?S] (js_String (i_customer iv))")
    case (Inl x)
    with assms key show ?thesis by (simp add: onInvoiceFinalized_def promise_defs)
  next
    case cu: (Inr cu)
    obtain cs where cs: "snd (contactId_of w e cu [?S, ?R]) = [?S, ?R] @ cs"
      "\<forall>c \<in> set cs. (\<exists>n. c = AccessSecretVersion n) \<or> (\<exists>cl q. c = Post cl ''/Contact'' (ContactBody q))
        \<or> (\<exists>cl p q. c = Put cl p (ContactBody q)) \<or> (\<exists>i v. c = CustomersUpdate i v)"
      using contactId_of_calls by blast
    from cs(2) have nopost: "Post c p (SaveInvoiceBody b) \<notin> set cs" by auto
    obtain r2 where r2: "contactId_of w e cu [?S, ?R] = (r2, [?S, ?R] @ cs)"
      using cs(1) by (cases "contactId_of w e cu [?S, ?R]") simp
    show ?thesis
    proof (cases r2)
      case (Inl x)
      with assms key cu r2 nopost show ?thesis
        by (simp add: onInvoiceFinalized_def promise_defs)
    next
      case cid: (Inr contactId)
      show ?thesis
      proof (cases "\<exists>l \<in> set (i_lines iv). multiple_tax_rates l")
        case True
        from invoiceItems_multiple [OF True] assms key cu r2 cid nopost show ?thesis
          by (auto simp add: onInvoiceFinalized_def promise_defs dest: rate_lookup_calls)
      next
        case False
        then have ok: "\<forall>l \<in> set (i_lines iv). \<not> multiple_tax_rates l" by simp
        from invoiceItems_ok [OF ok] assms key cu r2 cid nopost ok show ?thesis
          by (auto simp add: onInvoiceFinalized_def promise_defs split: sum.splits
              dest: rate_lookup_calls)
      qed
    qed
  qed
qed

lemma finalized_multiple:
  assumes "\<exists>l \<in> set (i_lines iv). multiple_tax_rates l"
  shows "isl (fst (onInvoiceFinalized w e iv [])) \<and>
         (\<forall>c \<in> set (snd (onInvoiceFinalized w e iv [])).
            (\<exists>n. c = AccessSecretVersion n) \<or> (\<exists>i. c = CustomersRetrieve i) \<or>
            (\<exists>i. c = TaxRatesRetrieve i) \<or> (\<exists>cl q. c = Post cl ''/Contact'' (ContactBody q)) \<or>
            (\<exists>cl p q. c = Put cl p (ContactBody q)) \<or> (\<exists>i v. c = CustomersUpdate i v))"
proof (cases "secretManager w [] (env_String (SEVDESK_API_KEY_SECRET e))")
  case (Inl x)
  then show ?thesis by (simp add: onInvoiceFinalized_def promise_defs)
next
  case key: (Inr apiKey)
  let ?S = "AccessSecretVersion (env_String (SEVDESK_API_KEY_SECRET e))"
  let ?R = "CustomersRetrieve (js_String (i_customer iv))"
  show ?thesis
  proof (cases "customersRetrieve w [?S] (js_String (i_customer iv))")
    case (Inl x)
    with key show ?thesis by (simp add: onInvoiceFinalized_def promise_defs)
  next
    case cu: (Inr cu)
    obtain cs where cs: "snd (contactId_of w e cu [?S, ?R]) = [?S, ?R] @ cs"
      "\<forall>c \<in> set cs. (\<exists>n. c = AccessSecretVersion n) \<or> (\<exists>cl q. c = Post cl ''/Contact'' (ContactBody q))
        \<or> (\<exists>cl p q. c = Put cl p (ContactBody q)) \<or> (\<exists>i v. c = CustomersUpdate i v)"
      using contactId_of_calls by blast
    obtain r2 where r2: "contactId_of w e cu [?S, ?R] = (r2, [?S, ?R] @ cs)"
      using cs(1) by (cases "contactId_of w e cu [?S, ?R]") simp
    show ?thesis
    proof (cases r2)
      case (Inl x)
      with key cu r2 cs(2) show ?thesis
        by (auto simp add: onInvoiceFinalized_def promise_defs)
    next
      case cid: (Inr contactId)
      from invoiceItems_multiple [OF assms] key cu r2 cid cs(2) show ?thesis
        by (auto simp add: onInvoiceFinalized_def promise_defs dest: rate_lookup_calls)
    qed
  qed
qed


lemma create_path:
  assumes "secretManager w tr (env_String (SEVDESK_API_KEY_SECRET e)) = Inr apiKey"
    and "answer w (tr @ [secret_call e]) (create_call apiKey cu) = Inr created"
    and "data_id created = Inr newId"
  shows "createOrUpdateContact w e cu JUndefined tr =
           (answer w (tr @ [secret_call e, create_call apiKey cu]) (CustomersUpdate (c_id cu) newId),
            tr @ [secret_call e, create_call apiKey cu, CustomersUpdate (c_id cu) newId])"
  using assms by (simp add: createOrUpdateContact_def promise_defs)

lemma contactId_of_created:
  assumes "c_metadata cu = None \<or> linkage (c_metadata cu) = JNull"
  shows "contactId_of w e cu tr =
           (case createOrUpdateContact w e cu JUndefined tr of
              (Inl x, t) \<Rightarrow> (Inl x, t) | (Inr contact, t) \<Rightarrow> (data_id contact, t))"
  using assms
  by (auto simp: contactId_of_def linkage_def Let_def await_def eval_js_def split: option.splits)

lemma rate_lookup_not_sevdesk: "filter is_sevdesk (concat (map rate_lookup ls)) = []"
  by (induction ls) (auto simp: rate_lookup_def split: option.splits list.splits)

lemma rate_lookup_not_creation: "filter is_contact_creation (concat (map rate_lookup ls)) = []"
  by (induction ls) (auto simp: rate_lookup_def split: option.splits list.splits)

lemma toUpperCase_eur: "toUpperCase ''eur'' = ''EUR''"
  by code_simp

subsection \<open>Requests that fail signature verification\<close>

text \<open>
  C9. When the signature check throws, the entry point answers with status 400 and the
  body \<^verbatim>\<open>{error: true, message}\<close> of the error thrown, starts no handler, and makes no
  call to an outside service, so that no linkage metadata is written.
\<close>

theorem webhook_rejects_unverified_request:
  "constructEvent w (rawBody req) (stripe_signature req) (STRIPE_WEBHOOK_SECRET e) = Inl err \<Longrightarrow>
   webhook w e req = \<lparr>response = Some (400, ErrorBody err), thrown = None, unhandled = None,
                       handler_started = False, calls = []\<rparr>"
  by (simp add: webhook_def res_send_def res_status_def res0_def)

theorem webhook_rejects_unverified_request_witness:
  "constructEvent (demo_world PayoutPaid (demo_customer None)) ''{}'' (Some ''forged'')
     (Some ''whsec_1'') =
     Inl (Rejected ''No signatures found matching the expected signature for payload.'') \<and>
   webhook (demo_world PayoutPaid (demo_customer None)) demo_env
     \<lparr>rawBody = ''{}'', stripe_signature = Some ''forged''\<rparr> =
     \<lparr>response = Some (400, ErrorBody
         (Rejected ''No signatures found matching the expected signature for payload.'')),
      thrown = None, unhandled = None, handler_started = False, calls = []\<rparr>"
  using webhook_rejects_unverified_request
    [of "demo_world PayoutPaid (demo_customer None)"
        "\<lparr>rawBody = ''{}'', stripe_signature = Some ''forged''\<rparr>" demo_env
        "Rejected ''No signatures found matching the expected signature for payload.''"]
  by (simp add: demo_world_def demo_env_def)

subsection \<open>The invoice-creation request\<close>

text \<open>
  C7. Whenever the finalize handler sends the invoice-creation request, its \<^verbatim>\<open>taxType\<close> is
  \<^verbatim>\<open>eu\<close> if the invoice's \<^verbatim>\<open>customer_tax_exempt\<close> is \<^verbatim>\<open>exempt\<close>, \<^verbatim>\<open>noteu\<close> if it is
  \<^verbatim>\<open>reverse\<close> and \<^verbatim>\<open>default\<close> otherwise, and its currency is the invoice's currency code in
  upper case.
\<close>

theorem tax_type_and_currency:
  assumes "Post c p (SaveInvoiceBody b) \<in> set (snd (onInvoiceFinalized w e iv []))"
  shows "taxType (invoice_part b) =
           (if i_customer_tax_exempt iv = Some ''exempt'' then ''eu''
            else if i_customer_tax_exempt iv = Some ''reverse'' then ''noteu''
            else ''default'') \<and>
         currency (invoice_part b) = toUpperCase (i_currency iv)"
proof -
  from finalized_save_request [OF assms] obtain contactId
    where "b = saveInvoice_body iv contactId (map item_of (i_lines iv))" by blast
  then show ?thesis by (simp add: saveInvoice_body_def)
qed

theorem tax_type_and_currency_witness:
  "Post demo_client ''/Invoice/Factory/saveInvoice''
       (SaveInvoiceBody (saveInvoice_body one_rate_invoice (JStr ''77'')
          [item_of (demo_line [demo_rate])]))
     \<in> set (snd (onInvoiceFinalized (handler_world (demo_customer (linked_to ''77''))) demo_env
                  one_rate_invoice [])) \<and>
   taxType (invoice_part (saveInvoice_body one_rate_invoice (JStr ''77'')
          [item_of (demo_line [demo_rate])])) = ''eu'' \<and>
   currency (invoice_part (saveInvoice_body one_rate_invoice (JStr ''77'')
          [item_of (demo_line [demo_rate])])) = ''EUR''"
proof -
  have run: "Post demo_client ''/Invoice/Factory/saveInvoice''
       (SaveInvoiceBody (saveInvoice_body one_rate_invoice (JStr ''77'')
          [item_of (demo_line [demo_rate])]))
     \<in> set (snd (onInvoiceFinalized (handler_world (demo_customer (linked_to ''77''))) demo_env
                  one_rate_invoice []))"
    by (simp add: run_defs demo_defs)
  from tax_type_and_currency [OF run] run show ?thesis
    by (simp add: demo_defs saveInvoice_body_def item_of_def toUpperCase_eur)
qed

text \<open>
  C6. A line with exactly one tax rate starts the lookup of that rate, and the
  invoice-creation request nevertheless carries the line's item with \<^verbatim>\<open>taxRate\<close> null:
  the item is built before the lookup can be answered. The witness is an invoice for
  which this happens.
\<close>

theorem tax_rate_omitted:
  assumes "Post c p (SaveInvoiceBody b) \<in> set (snd (onInvoiceFinalized w e iv []))"
    and "n < length (i_lines iv)"
    and "l_tax_amounts (i_lines iv ! n) = Some [ta]"
  shows "TaxRatesRetrieve (js_String (ta_tax_rate ta)) \<in> set (snd (onInvoiceFinalized w e iv [])) \<and>
         length (invoicePosSave b) = length (i_lines iv) \<and>
         invoicePosSave b ! n = item_of (i_lines iv ! n) \<and>
         pos_taxRate (invoicePosSave b ! n) = None"
proof -
  from finalized_save_request [OF assms(1)] obtain contactId
    where b: "b = saveInvoice_body iv contactId (map item_of (i_lines iv))"
      and sub: "set (concat (map rate_lookup (i_lines iv))) \<subseteq> set (snd (onInvoiceFinalized w e iv []))"
    by blast
  from assms(3) have "rate_lookup (i_lines iv ! n) = [TaxRatesRetrieve (js_String (ta_tax_rate ta))]"
    by (simp add: rate_lookup_def)
  with assms(2) have "TaxRatesRetrieve (js_String (ta_tax_rate ta)) \<in> set (concat (map rate_lookup (i_lines iv)))"
    by (auto intro!: bexI [of _ "i_lines iv ! n"])
  with sub have "TaxRatesRetrieve (js_String (ta_tax_rate ta)) \<in> set (snd (onInvoiceFinalized w e iv []))"
    by blast
  with b assms(2) show ?thesis by (simp add: saveInvoice_body_def item_of_def)
qed

theorem tax_rate_omitted_witness:
  "Post demo_client ''/Invoice/Factory/saveInvoice''
       (SaveInvoiceBody (saveInvoice_body one_rate_invoice (JStr ''77'')
          [item_of (demo_line [demo_rate])]))
     \<in> set (snd (onInvoiceFinalized (handler_world (demo_customer (linked_to ''77''))) demo_env
                  one_rate_invoice [])) \<and>
   l_tax_amounts (i_lines one_rate_invoice ! 0) = Some [demo_rate] \<and>
   TaxRatesRetrieve ''txr_1''
     \<in> set (snd (onInvoiceFinalized (handler_world (demo_customer (linked_to ''77''))) demo_env
                  one_rate_invoice [])) \<and>
   pos_taxRate (invoicePosSave (saveInvoice_body one_rate_invoice (JStr ''77'')
          [item_of (demo_line [demo_rate])]) ! 0) = None"
proof -
  have run: "Post demo_client ''/Invoice/Factory/saveInvoice''
       (SaveInvoiceBody (saveInvoice_body one_rate_invoice (JStr ''77'')
          [item_of (demo_line [demo_rate])]))
     \<in> set (snd (onInvoiceFinalized (handler_world (demo_customer (linked_to ''77''))) demo_env
                  one_rate_invoice []))"
    by (simp add: run_defs demo_defs)
  have line: "l_tax_amounts (i_lines one_rate_invoice ! 0) = Some [demo_rate]"
    by (simp add: demo_defs)
  have len: "0 < length (i_lines one_rate_invoice)"
    by (simp add: demo_defs)
  from tax_rate_omitted [OF run len line] run line show ?thesis
    by (simp add: demo_defs saveInvoice_body_def item_of_def)
qed

subsection \<open>Booking a paid invoice\<close>

text \<open>
  C8. For an invoice with a linkage id, and once the SevDesk client could be built, the
  paid handler sends one booking request to the linked accounting invoice: its amount is
  the invoice's \<^verbatim>\<open>amount_paid\<close>, its check account the configured
  \<^verbatim>\<open>SEVDESK_CHECK_ACCOUNT\<close>, and its booking type the fixed code \<^verbatim>\<open>N\<close>.
\<close>

theorem paid_booking:
  assumes "has_linkage (i_metadata iv)"
    and "secretManager w [] (env_String (SEVDESK_API_KEY_SECRET e)) = Inr apiKey"
  shows "snd (onInvoicePaid w e iv []) =
     [AccessSecretVersion (env_String (SEVDESK_API_KEY_SECRET e)),
      Put \<lparr>baseURL = ''https://my.sevdesk.de/api/v1/'', authorization = apiKey\<rparr>
        (''/Invoice/'' @ js_String (linkage (i_metadata iv)) @ ''/bookAmount'')
        (BookAmountBody \<lparr>amount = i_amount_paid iv, date = today_de e, booking_type = ''N'',
           checkAccount_id = SEVDESK_CHECK_ACCOUNT e, checkAccount_objectName = ''CheckAccount''\<rparr>)]"
  using assms
  by (auto simp: onInvoicePaid_def has_linkage_def linkage_def promise_defs split: option.splits)

theorem paid_booking_witness:
  "has_linkage (i_metadata (demo_invoice [] (linked_to ''500''))) \<and>
   secretManager (handler_world (demo_customer None)) []
     (env_String (SEVDESK_API_KEY_SECRET demo_env)) = Inr ''api-key'' \<and>
   snd (onInvoicePaid (handler_world (demo_customer None)) demo_env
          (demo_invoice [] (linked_to ''500'')) []) =
     [AccessSecretVersion ''sevdesk-key'',
      Put demo_client ''/Invoice/500/bookAmount''
        (BookAmountBody \<lparr>amount = 1190, date = ''3.11.2026'', booking_type = ''N'',
           checkAccount_id = Some ''5'', checkAccount_objectName = ''CheckAccount''\<rparr>)]"
proof -
  have l: "has_linkage (i_metadata (demo_invoice [] (linked_to ''500'')))"
    by (simp add: has_linkage_def linkage_def meta_get_def demo_defs)
  have s: "secretManager (handler_world (demo_customer None)) []
     (env_String (SEVDESK_API_KEY_SECRET demo_env)) = Inr ''api-key''"
    by (simp add: demo_defs)
  from paid_booking [OF l s] l s show ?thesis
    by (simp add: demo_defs linkage_def meta_get_def env_String_def)
qed

subsection \<open>Customer events\<close>

text \<open>
  C5. With the SevDesk client built: for a customer without a linkage id, and a contact
  creation that succeeds with the new id \<open>newId\<close>, the customer handler makes exactly one
  contact-creation call followed by exactly one write-back call, which stores \<open>newId\<close> in
  the customer's metadata; for a customer with a linkage id it makes one update call on
  the linked contact and no write-back call.
\<close>

theorem customer_updated_create_or_update:
  assumes "secretManager w [] (env_String (SEVDESK_API_KEY_SECRET e)) = Inr apiKey"
  shows "(\<not> has_linkage (c_metadata cu) \<longrightarrow>
            answer w [AccessSecretVersion (env_String (SEVDESK_API_KEY_SECRET e))]
              (Post \<lparr>baseURL = ''https://my.sevdesk.de/api/v1/'', authorization = apiKey\<rparr>
                 ''/Contact'' (ContactBody (contact_payload cu))) = Inr r \<longrightarrow>
            data_id r = Inr newId \<longrightarrow>
            snd (onCustomerUpdated w e cu []) =
              [AccessSecretVersion (env_String (SEVDESK_API_KEY_SECRET e)),
               Post \<lparr>baseURL = ''https://my.sevdesk.de/api/v1/'', authorization = apiKey\<rparr>
                 ''/Contact'' (ContactBody (contact_payload cu)),
               CustomersUpdate (c_id cu) newId]) \<and>
         (has_linkage (c_metadata cu) \<longrightarrow>
            snd (onCustomerUpdated w e cu []) =
              [AccessSecretVersion (env_String (SEVDESK_API_KEY_SECRET e)),
               Put \<lparr>baseURL = ''https://my.sevdesk.de/api/v1/'', authorization = apiKey\<rparr>
                 (''/Contact/'' @ js_String (linkage (c_metadata cu)))
                 (ContactBody (contact_payload cu))])"
  using assms
  by (auto simp: onCustomerUpdated_def createOrUpdateContact_def has_linkage_def linkage_def
      promise_defs split: option.splits)

theorem customer_updated_create_or_update_witness:
  "secretManager (handler_world (demo_customer None)) []
     (env_String (SEVDESK_API_KEY_SECRET demo_env)) = Inr ''api-key'' \<and>
   \<not> has_linkage (c_metadata (demo_customer (Some []))) \<and>
   answer (handler_world (demo_customer None)) [AccessSecretVersion ''sevdesk-key'']
     (Post demo_client ''/Contact'' (ContactBody (contact_payload (demo_customer (Some []))))) =
     Inr (JObj [(''status'', JNum 201), (''data'', JObj [(''id'', JStr ''77'')])]) \<and>
   data_id (JObj [(''status'', JNum 201), (''data'', JObj [(''id'', JStr ''77'')])]) = Inr (JStr ''77'') \<and>
   snd (onCustomerUpdated (handler_world (demo_customer None)) demo_env (demo_customer (Some [])) []) =
     [AccessSecretVersion ''sevdesk-key'',
      Post demo_client ''/Contact'' (ContactBody (contact_payload (demo_customer (Some [])))),
      CustomersUpdate ''cus_1'' (JStr ''77'')] \<and>
   has_linkage (c_metadata (demo_customer (linked_to ''77''))) \<and>
   snd (onCustomerUpdated (handler_world (demo_customer None)) demo_env
          (demo_customer (linked_to ''77'')) []) =
     [AccessSecretVersion ''sevdesk-key'',
      Put demo_client ''/Contact/77'' (ContactBody (contact_payload (demo_customer (linked_to ''77''))))]"
proof -
  have s: "secretManager (handler_world (demo_customer None)) []
     (env_String (SEVDESK_API_KEY_SECRET demo_env)) = Inr ''api-key''"
    by (simp add: demo_defs)
  have u: "\<not> has_linkage (c_metadata (demo_customer (Some [])))"
    by (simp add: has_linkage_def linkage_def meta_get_def demo_defs)
  have a: "answer (handler_world (demo_customer None)) [AccessSecretVersion ''sevdesk-key'']
     (Post demo_client ''/Contact'' (ContactBody (contact_payload (demo_customer (Some []))))) =
     Inr (JObj [(''status'', JNum 201), (''data'', JObj [(''id'', JStr ''77'')])])"
    by (simp add: demo_defs)
  have d: "data_id (JObj [(''status'', JNum 201), (''data'', JObj [(''id'', JStr ''77'')])]) = Inr (JStr ''77'')"
    by (simp add: data_id_def)
  have l: "has_linkage (c_metadata (demo_customer (linked_to ''77'')))"
    by (simp add: has_linkage_def linkage_def meta_get_def demo_defs)
  have k: "linkage (c_metadata (demo_customer (linked_to ''77''))) = JStr ''77''"
    by (simp add: linkage_def meta_get_def demo_defs)
  have n: "env_String (SEVDESK_API_KEY_SECRET demo_env) = ''sevdesk-key''" "c_id (demo_customer m) = ''cus_1''" for m
    by (simp_all add: demo_defs env_String_def)
  from customer_updated_create_or_update [OF s, where cu = "demo_customer (Some [])"
      and r = "JObj [(''status'', JNum 201), (''data'', JObj [(''id'', JStr ''77'')])]"
      and newId = "JStr ''77''"]
    customer_updated_create_or_update [OF s, where cu = "demo_customer (linked_to ''77'')"]
    s u a d l k n
  show ?thesis by (simp add: demo_client_def)
qed

subsection \<open>The result of creating a contact\<close>

text \<open>
  C10. On the create path (no contact id given), when the contact creation and the
  write-back both succeed, the promise of \<^verbatim>\<open>createOrUpdateContact\<close> is fulfilled with the
  answer \<open>written\<close> of \<^verbatim>\<open>stripe.customers.update\<close>, not with the answer \<open>created\<close> of the
  contact creation. So the contact id the finalize handler reads, for a customer whose
  metadata or whose \<^verbatim>\<open>sevdesk_id\<close> is null, is \<^verbatim>\<open>written.data.id\<close>: the handler fails where
  that cannot be read, and every invoice-creation request it sends refers to that id.
\<close>

theorem create_path_yields_write_back_result:
  assumes "secretManager w tr (env_String (SEVDESK_API_KEY_SECRET e)) = Inr apiKey"
    and "answer w (tr @ [secret_call e]) (create_call apiKey cu) = Inr created"
    and "data_id created = Inr newId"
    and "answer w (tr @ [secret_call e, create_call apiKey cu]) (CustomersUpdate (c_id cu) newId)
           = Inr written"
  shows "createOrUpdateContact w e cu JUndefined tr =
           (Inr written, tr @ [secret_call e, create_call apiKey cu, CustomersUpdate (c_id cu) newId]) \<and>
         (c_metadata cu = None \<or> linkage (c_metadata cu) = JNull \<longrightarrow>
            contactId_of w e cu tr =
              (data_id written,
               tr @ [secret_call e, create_call apiKey cu, CustomersUpdate (c_id cu) newId])) \<and>
         (c_metadata cu = None \<or> linkage (c_metadata cu) = JNull \<longrightarrow>
          tr = [secret_call e, retrieve_call iv] \<longrightarrow>
          customersRetrieve w [secret_call e] (js_String (i_customer iv)) = Inr cu \<longrightarrow>
            (\<forall>c p b. Post c p (SaveInvoiceBody b) \<in> set (snd (onInvoiceFinalized w e iv [])) \<longrightarrow>
               Inr (contact_id (invoice_part b)) = data_id written))"
proof -
  let ?calls = "[secret_call e, create_call apiKey cu, CustomersUpdate (c_id cu) newId]"
  have A: "createOrUpdateContact w e cu JUndefined tr = (Inr written, tr @ ?calls)"
    using create_path [OF assms(1-3)] assms(4) by simp
  have B: "contactId_of w e cu tr = (data_id written, tr @ ?calls)"
    if "c_metadata cu = None \<or> linkage (c_metadata cu) = JNull"
    using contactId_of_created [OF that, of w e tr] A by simp
  have C: "Inr (contact_id (invoice_part b)) = data_id written"
    if null: "c_metadata cu = None \<or> linkage (c_metadata cu) = JNull"
      and tr: "tr = [secret_call e, retrieve_call iv]"
      and cu: "customersRetrieve w [secret_call e] (js_String (i_customer iv)) = Inr cu"
      and post: "Post c p (SaveInvoiceBody b) \<in> set (snd (onInvoiceFinalized w e iv []))"
    for c p b
  proof -
    from finalized_save_request [OF post] obtain cu' contactId t
      where "customersRetrieve w [secret_call e] (js_String (i_customer iv)) = Inr cu'"
        and "contactId_of w e cu' [secret_call e, retrieve_call iv] = (Inr contactId, t)"
        and "b = saveInvoice_body iv contactId (map item_of (i_lines iv))"
      by blast
    with cu B [OF null] tr show ?thesis by (simp add: saveInvoice_body_def)
  qed
  from A B C show ?thesis by blast
qed

theorem create_path_yields_write_back_result_witness:
  "secretManager (echo_world (demo_customer None)) [secret_call demo_env, retrieve_call one_rate_invoice]
     (env_String (SEVDESK_API_KEY_SECRET demo_env)) = Inr ''api-key'' \<and>
   data_id (JObj [(''status'', JNum 201), (''data'', JObj [(''id'', JStr ''77'')])]) = Inr (JStr ''77'') \<and>
   createOrUpdateContact (echo_world (demo_customer None)) demo_env (demo_customer None) JUndefined
       [secret_call demo_env, retrieve_call one_rate_invoice] =
     (Inr (JObj [(''data'', JObj [(''id'', JStr ''99'')])]),
      [secret_call demo_env, retrieve_call one_rate_invoice, secret_call demo_env,
       create_call ''api-key'' (demo_customer None), CustomersUpdate ''cus_1'' (JStr ''77'')]) \<and>
   fst (contactId_of (echo_world (demo_customer None)) demo_env (demo_customer None)
       [secret_call demo_env, retrieve_call one_rate_invoice]) = Inr (JStr ''99'') \<and>
   Post demo_client ''/Invoice/Factory/saveInvoice''
       (SaveInvoiceBody (saveInvoice_body one_rate_invoice (JStr ''99'')
          [item_of (demo_line [demo_rate])]))
     \<in> set (snd (onInvoiceFinalized (echo_world (demo_customer None)) demo_env one_rate_invoice []))"
proof -
  let ?w = "echo_world (demo_customer None)"
  let ?tr = "[secret_call demo_env, retrieve_call one_rate_invoice]"
  have s: "secretManager ?w ?tr (env_String (SEVDESK_API_KEY_SECRET demo_env)) = Inr ''api-key''"
    by (simp add: demo_defs)
  have a: "answer ?w (?tr @ [secret_call demo_env]) (create_call ''api-key'' (demo_customer None)) =
      Inr (JObj [(''status'', JNum 201), (''data'', JObj [(''id'', JStr ''77'')])])"
    by (simp add: demo_defs)
  have d: "data_id (JObj [(''status'', JNum 201), (''data'', JObj [(''id'', JStr ''77'')])]) = Inr (JStr ''77'')"
    by (simp add: data_id_def)
  have u: "answer ?w (?tr @ [secret_call demo_env, create_call ''api-key'' (demo_customer None)])
      (CustomersUpdate (c_id (demo_customer None)) (JStr ''77'')) =
      Inr (JObj [(''data'', JObj [(''id'', JStr ''99'')])])"
    by (simp add: demo_defs)
  have n: "c_metadata (demo_customer None) = None" "c_id (demo_customer None) = ''cus_1''"
    by (simp_all add: demo_defs)
  have d': "data_id (JObj [(''data'', JObj [(''id'', JStr ''99'')])]) = Inr (JStr ''99'')"
    by (simp add: data_id_def)
  have run: "Post demo_client ''/Invoice/Factory/saveInvoice''
       (SaveInvoiceBody (saveInvoice_body one_rate_invoice (JStr ''99'')
          [item_of (demo_line [demo_rate])]))
     \<in> set (snd (onInvoiceFinalized ?w demo_env one_rate_invoice []))"
    by (simp add: run_defs demo_defs)
  from create_path_yields_write_back_result [OF s a d u, of one_rate_invoice] s d n d' run
  show ?thesis by simp
qed

subsection \<open>Lines with multiple tax rates\<close>

text \<open>
  C4, as the code has it. For an invoice with a line carrying two or more tax rates the
  finalize handler fails, and it makes no invoice-creation call and writes no invoice id
  back. The contact is resolved before the lines are looked at: if the API key and the
  customer can be fetched and the customer has a linkage id, the failure is the
  validation error and no call reaches the accounting platform.
\<close>

theorem multiple_tax_rates_rejected:
  assumes "l \<in> set (i_lines iv)" and "multiple_tax_rates l"
  shows "isl (fst (onInvoiceFinalized w e iv [])) \<and>
         (\<forall>c \<in> set (snd (onInvoiceFinalized w e iv [])).
            \<not> is_invoice_creation c \<and> \<not> is_invoice_update c) \<and>
         (\<forall>apiKey cu.
            secretManager w [] (env_String (SEVDESK_API_KEY_SECRET e)) = Inr apiKey \<longrightarrow>
            customersRetrieve w [secret_call e] (js_String (i_customer iv)) = Inr cu \<longrightarrow>
            has_linkage (c_metadata cu) \<longrightarrow>
              fst (onInvoiceFinalized w e iv []) =
                Inl (Error ''Multiple tax rates per item are not supported.'') \<and>
              filter is_sevdesk (snd (onInvoiceFinalized w e iv [])) = [])"
proof -
  from assms have m: "\<exists>l \<in> set (i_lines iv). multiple_tax_rates l" by blast
  from finalized_multiple [OF m, of w e]
  have A: "isl (fst (onInvoiceFinalized w e iv []))"
    and B: "\<forall>c \<in> set (snd (onInvoiceFinalized w e iv [])).
            \<not> is_invoice_creation c \<and> \<not> is_invoice_update c"
    by fastforce+
  have C: "fst (onInvoiceFinalized w e iv []) =
                Inl (Error ''Multiple tax rates per item are not supported.'') \<and>
              filter is_sevdesk (snd (onInvoiceFinalized w e iv [])) = []"
    if "secretManager w [] (env_String (SEVDESK_API_KEY_SECRET e)) = Inr apiKey"
      and "customersRetrieve w [secret_call e] (js_String (i_customer iv)) = Inr cu"
      and "has_linkage (c_metadata cu)" for apiKey cu
    using that invoiceItems_multiple [OF m] contactId_of_linked [OF that(3)]
    by (simp add: onInvoiceFinalized_def promise_defs rate_lookup_not_sevdesk)
  from A B C show ?thesis by blast
qed

theorem multiple_tax_rates_rejected_witness:
  "demo_line [demo_rate, \<lparr>ta_tax_rate = JStr ''txr_2''\<rparr>] \<in> set (i_lines two_rate_invoice) \<and>
   multiple_tax_rates (demo_line [demo_rate, \<lparr>ta_tax_rate = JStr ''txr_2''\<rparr>]) \<and>
   secretManager (handler_world (demo_customer (linked_to ''77''))) []
     (env_String (SEVDESK_API_KEY_SECRET demo_env)) = Inr ''api-key'' \<and>
   customersRetrieve (handler_world (demo_customer (linked_to ''77''))) [secret_call demo_env]
     (js_String (i_customer two_rate_invoice)) = Inr (demo_customer (linked_to ''77'')) \<and>
   has_linkage (c_metadata (demo_customer (linked_to ''77''))) \<and>
   fst (onInvoiceFinalized (handler_world (demo_customer (linked_to ''77''))) demo_env
          two_rate_invoice []) = Inl (Error ''Multiple tax rates per item are not supported.'') \<and>
   filter is_sevdesk (snd (onInvoiceFinalized (handler_world (demo_customer (linked_to ''77'')))
          demo_env two_rate_invoice [])) = [] \<and>
   isl (fst (onInvoiceFinalized (handler_world (demo_customer (linked_to ''77''))) demo_env
          two_rate_invoice []))"
proof -
  let ?w = "handler_world (demo_customer (linked_to ''77''))"
  have l: "demo_line [demo_rate, \<lparr>ta_tax_rate = JStr ''txr_2''\<rparr>] \<in> set (i_lines two_rate_invoice)"
    by (simp add: demo_defs)
  have m: "multiple_tax_rates (demo_line [demo_rate, \<lparr>ta_tax_rate = JStr ''txr_2''\<rparr>])"
    by (simp add: multiple_tax_rates_def demo_defs)
  have s: "secretManager ?w [] (env_String (SEVDESK_API_KEY_SECRET demo_env)) = Inr ''api-key''"
    by (simp add: demo_defs)
  have r: "customersRetrieve ?w [secret_call demo_env] (js_String (i_customer two_rate_invoice)) =
      Inr (demo_customer (linked_to ''77''))"
    by (simp add: demo_defs)
  have h: "has_linkage (c_metadata (demo_customer (linked_to ''77'')))"
    by (simp add: has_linkage_def linkage_def meta_get_def demo_defs)
  from multiple_tax_rates_rejected [OF l m, of ?w demo_env] l m s r h show ?thesis
    by blast
qed

text \<open>
  C4, as stated, fails: for a customer whose metadata are null the handler creates a
  contact, an accounting call, before it fails, here on reading the new contact's id.
\<close>

theorem contact_created_before_validation:
  "multiple_tax_rates (demo_line [demo_rate, \<lparr>ta_tax_rate = JStr ''txr_2''\<rparr>]) \<and>
   i_lines two_rate_invoice = [demo_line [demo_rate, \<lparr>ta_tax_rate = JStr ''txr_2''\<rparr>]] \<and>
   onInvoiceFinalized (handler_world (demo_customer None)) demo_env two_rate_invoice [] =
     (Inl (TypeError ''id''),
      [AccessSecretVersion ''sevdesk-key'', CustomersRetrieve ''cus_1'',
       AccessSecretVersion ''sevdesk-key'',
       Post demo_client ''/Contact'' (ContactBody (contact_payload (demo_customer None))),
       CustomersUpdate ''cus_1'' (JStr ''77'')]) \<and>
   is_sevdesk (Post demo_client ''/Contact'' (ContactBody (contact_payload (demo_customer None)))) \<and>
   is_contact_creation
     (Post demo_client ''/Contact'' (ContactBody (contact_payload (demo_customer None))))"
  by (simp add: run_defs demo_defs)

subsection \<open>Where the code departs from the specification\<close>

text \<open>Every verified event is answered with status 400 by the statements after the
  \<^verbatim>\<open>switch\<close>, whether or not a case matched.\<close>

lemma webhook_verified_event:
  "constructEvent w (rawBody req) (stripe_signature req) (STRIPE_WEBHOOK_SECRET e) = Inr ev \<Longrightarrow>
   response (webhook w e req) = Some (400, Text ''Event type not supported'') \<and>
   thrown (webhook w e req) = Some (Error (''Unhandled event type '' @ event_type ev))"
  by (auto simp add: webhook_def res_send_def res_status_def res0_def settle_def handleError_def
      Let_def split: option.splits prod.splits sum.splits)

text \<open>
  C1 at a verified \<^verbatim>\<open>invoice.paid\<close> event for a linked invoice, with every outside
  service succeeding: the handler's promise is fulfilled, yet the client receives
  400 \<^verbatim>\<open>Event type not supported\<close>, the function throws \<^verbatim>\<open>Unhandled event type\<close>, and
  the acknowledgment \<^verbatim>\<open>{received: true}\<close> is refused because the request has been
  answered already.
\<close>

theorem matched_event_answered_as_unsupported:
  "constructEvent (demo_world (InvoicePaid (demo_invoice [] (linked_to ''500''))) (demo_customer None))
     (rawBody (demo_request ''good'')) (stripe_signature (demo_request ''good''))
     (STRIPE_WEBHOOK_SECRET demo_env) = Inr (InvoicePaid (demo_invoice [] (linked_to ''500''))) \<and>
   fst (onInvoicePaid (demo_world (InvoicePaid (demo_invoice [] (linked_to ''500''))) (demo_customer None))
     demo_env (demo_invoice [] (linked_to ''500'')) []) =
     Inr (JObj [(''status'', JNum 200), (''data'', JObj [])]) \<and>
   webhook (demo_world (InvoicePaid (demo_invoice [] (linked_to ''500''))) (demo_customer None))
     demo_env (demo_request ''good'') =
     \<lparr>response = Some (400, Text ''Event type not supported''),
      thrown = Some (Error ''Unhandled event type invoice.paid''),
      unhandled = Some HeadersSent, handler_started = True,
      calls = [AccessSecretVersion ''sevdesk-key'',
               Put demo_client ''/Invoice/500/bookAmount''
                 (BookAmountBody \<lparr>amount = 1190, date = ''3.11.2026'', booking_type = ''N'',
                    checkAccount_id = Some ''5'', checkAccount_objectName = ''CheckAccount''\<rparr>)]\<rparr>"
  by (simp add: webhook_def res_send_def res_status_def res0_def settle_def handleError_def
      run_defs demo_defs)

text \<open>For a customer with a linkage id the first half of C2 holds: no contact is
  created and every invoice-creation request refers to the stored id.\<close>

lemma finalized_linked_customer:
  assumes "secretManager w [] (env_String (SEVDESK_API_KEY_SECRET e)) = Inr apiKey"
    and "customersRetrieve w [secret_call e] (js_String (i_customer iv)) = Inr cu"
    and "has_linkage (c_metadata cu)"
  shows "filter is_contact_creation (snd (onInvoiceFinalized w e iv [])) = [] \<and>
         (\<forall>c p b. Post c p (SaveInvoiceBody b) \<in> set (snd (onInvoiceFinalized w e iv [])) \<longrightarrow>
            contact_id (invoice_part b) = linkage (c_metadata cu))"
proof -
  have "contact_id (invoice_part b) = linkage (c_metadata cu)"
    if post: "Post c p (SaveInvoiceBody b) \<in> set (snd (onInvoiceFinalized w e iv []))" for c p b
  proof -
    from finalized_save_request [OF post] obtain cu' contactId t
      where "customersRetrieve w [secret_call e] (js_String (i_customer iv)) = Inr cu'"
        and "contactId_of w e cu' [secret_call e, retrieve_call iv] = (Inr contactId, t)"
        and "b = saveInvoice_body iv contactId (map item_of (i_lines iv))"
      by blast
    with assms(2) contactId_of_linked [OF assms(3), of w e] show ?thesis
      by (simp add: saveInvoice_body_def)
  qed
  moreover have "filter is_contact_creation (snd (onInvoiceFinalized w e iv [])) = []"
  proof (cases "\<exists>l \<in> set (i_lines iv). multiple_tax_rates l")
    case True
    from invoiceItems_multiple [OF True] assms(1,2) contactId_of_linked [OF assms(3), of w e]
    show ?thesis
      by (simp add: onInvoiceFinalized_def promise_defs rate_lookup_not_creation)
  next
    case False
    then have ok: "\<forall>l \<in> set (i_lines iv). \<not> multiple_tax_rates l" by simp
    from invoiceItems_ok [OF ok] assms(1,2) contactId_of_linked [OF assms(3), of w e]
    show ?thesis
      by (simp add: onInvoiceFinalized_def promise_defs rate_lookup_not_creation split: sum.splits)
  qed
  ultimately show ?thesis by blast
qed

text \<open>
  C2 at a finalized invoice whose customer has no linkage id. With metadata \<^verbatim>\<open>{}\<close> no
  contact is created and the invoice is created with an undefined contact reference;
  with metadata \<^verbatim>\<open>null\<close> a contact is created and written back, and the handler then fails
  on reading the contact id, so that no invoice is created.
\<close>

theorem unlinked_customer_gets_no_contact:
  "\<not> has_linkage (c_metadata (demo_customer (Some []))) \<and>
   onInvoiceFinalized (handler_world (demo_customer (Some []))) demo_env (demo_invoice [] (Some [])) [] =
     (Inr (JObj [(''status'', JNum 201), (''data'', JObj [(''id'', JStr ''500'')])]),
      [AccessSecretVersion ''sevdesk-key'', CustomersRetrieve ''cus_1'',
       Post demo_client ''/Invoice/Factory/saveInvoice''
         (SaveInvoiceBody (saveInvoice_body (demo_invoice [] (Some [])) JUndefined [])),
       InvoicesUpdate ''in_1'' (JStr ''500'')]) \<and>
   \<not> has_linkage (c_metadata (demo_customer None)) \<and>
   onInvoiceFinalized (handler_world (demo_customer None)) demo_env (demo_invoice [] (Some [])) [] =
     (Inl (TypeError ''id''),
      [AccessSecretVersion ''sevdesk-key'', CustomersRetrieve ''cus_1'',
       AccessSecretVersion ''sevdesk-key'',
       Post demo_client ''/Contact'' (ContactBody (contact_payload (demo_customer None))),
       CustomersUpdate ''cus_1'' (JStr ''77'')])"
  by (simp add: run_defs demo_defs has_linkage_def linkage_def)

text \<open>Only null metadata and a null \<^verbatim>\<open>sevdesk_id\<close> are rejected by the paid and voided
  handlers.\<close>

lemma missing_link_rejected:
  "i_metadata iv = None \<or> linkage (i_metadata iv) = JNull \<Longrightarrow>
   onInvoicePaid w e iv [] = (Inl (Error ''No SevDesk link found.''), []) \<and>
   onInvoiceVoided w e iv [] = (Inl (Error ''No SevDesk link found.''), [])"
  by (auto simp: onInvoicePaid_def onInvoiceVoided_def linkage_def reject_def split: option.splits)

text \<open>
  C3 at an invoice whose metadata \<^verbatim>\<open>{}\<close> hold no \<^verbatim>\<open>sevdesk_id\<close>: the paid handler sends a
  booking request, and the voided handler a cancellation request, for the accounting
  invoice \<^verbatim>\<open>undefined\<close>, and neither fails.
\<close>

theorem unlinked_invoice_is_booked_and_cancelled:
  "\<not> has_linkage (i_metadata (demo_invoice [] (Some []))) \<and>
   onInvoicePaid (handler_world (demo_customer None)) demo_env (demo_invoice [] (Some [])) [] =
     (Inr (JObj [(''status'', JNum 200), (''data'', JObj [])]),
      [AccessSecretVersion ''sevdesk-key'',
       Put demo_client ''/Invoice/undefined/bookAmount''
         (BookAmountBody \<lparr>amount = 1190, date = ''3.11.2026'', booking_type = ''N'',
            checkAccount_id = Some ''5'', checkAccount_objectName = ''CheckAccount''\<rparr>)]) \<and>
   onInvoiceVoided (handler_world (demo_customer None)) demo_env (demo_invoice [] (Some [])) [] =
     (Inr (JObj [(''status'', JNum 201), (''data'', JObj [(''id'', JStr ''500'')])]),
      [AccessSecretVersion ''sevdesk-key'',
       Post demo_client ''/Invoice/undefined/cancelInvoice'' NoBody])"
  by (simp add: run_defs demo_defs has_linkage_def linkage_def)

end
